theory Spec2Isabelle
  imports Main "HOL-Library.Sublist"
begin

section \<open>Text primitives\<close>

text \<open>
  Python strings are modelled as \<^typ>\<open>string\<close>, one \<^typ>\<open>char\<close> per character: the
  characters are the code points below 256. On these \<open>str.lower()\<close> maps \<open>A\<close>..\<open>Z\<close>
  (65 to 90) and the accented capitals 192 to 222, the multiplication sign 215 apart, to
  the code point 32 above, and leaves every other character alone.
\<close>

definition lower_char :: "char \<Rightarrow> char" where
  "lower_char c =
     (let n = (of_char c :: nat)
      in if (65 \<le> n \<and> n \<le> 90) \<or> (192 \<le> n \<and> n \<le> 222 \<and> n \<noteq> 215) then char_of (n + 32)
         else c)"

definition lower :: "string \<Rightarrow> string" where
  "lower s = map lower_char s"

text \<open>\<open>p in t\<close> on strings: \<open>p\<close> occurs in \<open>t\<close> as a contiguous substring.\<close>

fun py_in :: "string \<Rightarrow> string \<Rightarrow> bool" where
  "py_in p [] = (p = [])"
| "py_in p (c # cs) = (prefix p (c # cs) \<or> py_in p cs)"

text \<open>\<open>any(p in t for p in ps)\<close>.\<close>

definition any_in :: "string list \<Rightarrow> string \<Rightarrow> bool" where
  "any_in ps t = list_ex (\<lambda>p. py_in p t) ps"

section \<open>Parsed JSON values\<close>

datatype jval =
    JStr string
  | JNum int
  | JBool bool
  | JNull
  | JArr "jval list"
  | JObj "(string \<times> jval) list"

text \<open>A Python \<open>dict\<close> with string keys, in insertion order; \<open>d.get(k)\<close> is \<open>map_of d k\<close>.\<close>

type_synonym jobj = "(string \<times> jval) list"

section \<open>Greeter: the keyword cascade\<close>

definition cancellation_phrases :: "string list" where
  "cancellation_phrases =
     [''cancel'', ''cancellation'', ''can't afford'', ''can't pay'',
      ''too expensive'', ''get rid of'', ''get rid'', ''remove'', ''discount'',
      ''custom billing'', ''billing arrangements'', ''payment plan'',
      ''special payment'', ''flexible payment'', ''change payment'']"

definition technical_phrases :: "string list" where
  "technical_phrases =
     [''overheat'', ''charging'', ''won't charge'', ''phone won't'', ''not working'',
      ''technical'', ''troubleshoot'']"

definition billing_phrases :: "string list" where
  "billing_phrases =
     [''got charged'', ''charged'', ''what's the extra'', ''what is the extra'',
      ''billing'', ''statement'', ''bill'', ''unexpected charge'']"

text \<open>The \<open>if\<close>/\<open>elif\<close> chain of \<open>GreeterAgent._parse_fallback\<close> that picks the intent.\<close>

definition fallback_intent :: "string \<Rightarrow> string" where
  "fallback_intent text_lower =
     (if any_in cancellation_phrases text_lower then ''cancellation''
      else if any_in technical_phrases text_lower \<and> \<not> py_in ''cancel'' text_lower
        then ''technical_support''
      else if any_in billing_phrases text_lower
              \<and> \<not> py_in ''can't afford'' text_lower \<and> \<not> py_in ''cancel'' text_lower
              \<and> \<not> py_in ''custom'' text_lower \<and> \<not> py_in ''arrangements'' text_lower
              \<and> \<not> py_in ''get rid'' text_lower
        then ''billing''
      else ''general'')"

definition fallback_next_agent :: "string \<Rightarrow> string" where
  "fallback_next_agent intent =
     (if intent = ''cancellation'' then ''retention''
      else if intent = ''technical_support'' then ''technical_support''
      else if intent = ''billing'' then ''billing''
      else ''none'')"

text \<open>
  \<open>GreeterAgent._parse_fallback(text, email, customer_data)\<close>. An e-mail that is
  \<open>None\<close> or empty is the empty string here: the program only ever tests it for truth.
\<close>

definition parse_fallback :: "string \<Rightarrow> string \<Rightarrow> jobj" where
  "parse_fallback text email =
     (let text_lower = lower text;
          intent = fallback_intent text_lower;
          next_agent = fallback_next_agent intent
      in [(''intent'', JStr intent),
          (''customer_email'', JStr (if email \<noteq> [] then email else ''not_provided'')),
          (''next_agent'', JStr next_agent),
          (''reasoning'', JStr (take 200 text))])"

section \<open>Offer catalog\<close>

text \<open>
  \<open>retention_rules.json\<close> as \<open>calculate_retention_offer\<close> reads it: a dict from a
  reason to a block, a block a dict from a tier or topic key to a list of offers, an
  offer a flat dict. The entry \<open>authorization_levels\<close> of the same file is read as a
  reason key only through the last \<open>else\<close>, which never looks at its content.
\<close>

type_synonym offer = jobj
type_synonym block = "(string \<times> offer list) list"
type_synonym rules = "(string \<times> block) list"

text \<open>
  The result dicts of \<open>calculate_retention_offer\<close>: \<open>OfferError msg keys\<close> is
  \<open>{"error": msg, "available_reasons" | "available_tiers": keys}\<close> (no list for the last
  \<open>else\<close>), \<open>OfferSuccess tier reason offers\<close> is the dict with \<open>"success": True\<close>.
\<close>

datatype offer_result =
    OfferError string "string list"
  | OfferSuccess string string "offer list"

definition tier_mapping :: "(string \<times> string) list" where
  "tier_mapping =
     [(''premium'', ''premium_customers''),
      (''regular'', ''regular_customers''),
      (''new'', ''new_customers'')]"

definition block_get :: "block \<Rightarrow> string \<Rightarrow> offer list" where
  "block_get reason_block k = (case map_of reason_block k of None \<Rightarrow> [] | Some os \<Rightarrow> os)"

definition calculate_retention_offer :: "rules \<Rightarrow> string \<Rightarrow> string \<Rightarrow> offer_result" where
  "calculate_retention_offer rules customer_tier reason =
     (case map_of rules reason of
        None \<Rightarrow> OfferError (''Unknown reason: '' @ reason) (map fst rules)
      | Some reason_block \<Rightarrow>
          if reason = ''financial_hardship'' then
            (case map_of tier_mapping (lower customer_tier) of
               None \<Rightarrow> OfferError (''No offers for tier '' @ customer_tier) (map fst tier_mapping)
             | Some tier_key \<Rightarrow>
                 (case map_of reason_block tier_key of
                    None \<Rightarrow>
                      OfferError (''No offers for tier '' @ customer_tier) (map fst tier_mapping)
                  | Some offers \<Rightarrow> OfferSuccess customer_tier reason offers))
          else if reason = ''product_issues'' then
            OfferSuccess customer_tier reason
              (block_get reason_block ''overheating'' @ block_get reason_block ''battery_issues'')
          else if reason = ''service_value'' then
            OfferSuccess customer_tier reason (block_get reason_block ''care_plus_premium'')
          else OfferError (''No offers for reason: '' @ reason) [])"

section \<open>Retention agent\<close>

text \<open>A customer profile: the row of \<open>customers.csv\<close>, column name to text.\<close>

type_synonym customer = "(string \<times> string) list"

definition classify_reason :: "string \<Rightarrow> string" where
  "classify_reason message =
     (let message_lower = lower message in
      if any_in [''afford'', ''money'', ''cost'', ''expensive'', ''can't pay'', ''financial'']
           message_lower
        then ''financial_hardship''
      else if any_in [''overheat'', ''broken'', ''defect'', ''not working'', ''issue'',
                      ''problem'', ''return''] message_lower
        then ''product_issues''
      else if any_in [''never used'', ''don't need'', ''value'', ''worth'', ''useless'',
                      ''waste''] message_lower
        then ''service_value''
      else ''financial_hardship'')"

definition customer_tier_of :: "customer \<Rightarrow> string" where
  "customer_tier_of customer_data =
     (case map_of customer_data ''tier'' of None \<Rightarrow> ''regular'' | Some t \<Rightarrow> t)"

text \<open>
  The loop of \<open>RetentionAgent.process\<close> over \<open>all_offers\<close>, with its two accumulators
  \<open>(agent_offers, manager_required_offers)\<close>.
\<close>

fun split_offers :: "offer list \<Rightarrow> offer list \<times> offer list \<Rightarrow> offer list \<times> offer list" where
  "split_offers [] acc = acc"
| "split_offers (offer # rest) (agent_offers, manager_required_offers) =
     (if map_of offer ''authorization'' = Some (JStr ''agent'')
        then split_offers rest (agent_offers @ [offer], manager_required_offers)
      else if map_of offer ''authorization'' = Some (JStr ''manager'')
        then split_offers rest (agent_offers, manager_required_offers @ [offer])
      else if map_of offer ''authorization'' = None
        then split_offers rest (agent_offers @ [offer], manager_required_offers)
      else split_offers rest (agent_offers, manager_required_offers))"

definition partition_offers :: "offer_result \<Rightarrow> offer list \<times> offer list" where
  "partition_offers offers_result =
     (case offers_result of
        OfferSuccess t r all_offers \<Rightarrow> split_offers all_offers ([], [])
      | OfferError m ks \<Rightarrow> ([], []))"

subsection \<open>The percentage request\<close>

definition is_digit :: "char \<Rightarrow> bool" where
  "is_digit c = (let n = (of_char c :: nat) in 48 \<le> n \<and> n \<le> 57)"

text \<open>
  Whitespace as \<open>\s\<close> and \<open>str.strip()\<close> see it below 256: the codes 9 to 13 and 28 to
  32, the next-line control 133 and the no-break space 160. The decimal digits of
  \<open>\d\<close> below 256 are \<open>0\<close> to \<open>9\<close>.
\<close>

definition is_space :: "char \<Rightarrow> bool" where
  "is_space c =
     (let n = (of_char c :: nat)
      in (9 \<le> n \<and> n \<le> 13) \<or> (28 \<le> n \<and> n \<le> 32) \<or> n = 133 \<or> n = 160)"

text \<open>
  \<open>(\d+)\s*%\<close> anchored at the head of the string, returning group 1. The greedy
  \<open>\d+\<close> takes the whole run of digits; giving a digit back cannot help, since the next
  character would then have to be whitespace or \<open>%\<close>.
\<close>

definition match_pct_here :: "string \<Rightarrow> string option" where
  "match_pct_here s =
     (let ds = takeWhile is_digit s;
          rest = dropWhile is_space (dropWhile is_digit s)
      in if ds \<noteq> [] \<and> take 1 rest = ''%'' then Some ds else None)"

text \<open>\<open>re.search(r"(\d+)\s*%", s)\<close>: the match at the leftmost position that has one.\<close>

fun re_search_pct :: "string \<Rightarrow> string option" where
  "re_search_pct [] = None"
| "re_search_pct (c # cs) =
     (case match_pct_here (c # cs) of
        Some g \<Rightarrow> Some g
      | None \<Rightarrow> re_search_pct cs)"

text \<open>The number a string of decimal digits denotes.\<close>

definition digit_val :: "char \<Rightarrow> int" where
  "digit_val c = int (of_char c) - 48"

definition int_of_digits :: "string \<Rightarrow> int" where
  "int_of_digits g = foldl (\<lambda>a c. 10 * a + digit_val c) 0 g"

text \<open>
  \<open>int(g)\<close> on a string of decimal digits: the interpreter refuses a string of more
  digits than \<open>sys.int_max_str_digits\<close>, 4300 unless reconfigured, leading zeros
  counted, with \<open>ValueError\<close>.
\<close>

datatype py_error = ValueError

definition int_max_str_digits :: nat where
  "int_max_str_digits = 4300"

definition py_int :: "string \<Rightarrow> py_error + int" where
  "py_int g = (if length g > int_max_str_digits then Inl ValueError else Inr (int_of_digits g))"

text \<open>
  Lines 78 to 98 of \<open>RetentionAgent.process\<close>. The instruction text is a fixed template
  in the requested percentage and the agent's ceiling; the model keeps these two numbers
  as \<open>Some (requested_discount, max_agent_discount)\<close> and \<open>None\<close> for no instruction.
  \<open>Inl ValueError\<close> is the exception of \<open>int\<close>, which nothing in \<open>process\<close> catches.
\<close>

definition discount_warning :: "string \<Rightarrow> int \<Rightarrow> py_error + (int \<times> int) option" where
  "discount_warning customer_message max_agent_discount =
     (let message_lower = lower customer_message in
      if py_in ''discount'' message_lower \<or> py_in ''%'' message_lower then
        (case re_search_pct customer_message of
           Some g \<Rightarrow>
             (case py_int g of
                Inl err \<Rightarrow> Inl err
              | Inr requested_discount \<Rightarrow>
                  if requested_discount > max_agent_discount
                    then Inr (Some (requested_discount, max_agent_discount))
                  else Inr None)
         | None \<Rightarrow> Inr None)
      else Inr None)"

subsection \<open>The collaborators\<close>

text \<open>
  What the retention prompt interpolates. The template text around these values is
  fixed; the playbook script and the retrieved policy passages are functions of the
  reason, the message and the files, so a generator that is an arbitrary function of
  this record covers them.
\<close>

record retention_prompt =
  rp_message :: string
  rp_customer_data :: customer
  rp_customer_tier :: string
  rp_reason :: string
  rp_max_agent_discount :: int
  rp_discount_warning :: "(int \<times> int) option"
  rp_agent_offers :: "offer list"
  rp_recent :: "string list"

text \<open>
  One constructor per call of the text generator: the greeter's classification
  (message, e-mail, profile), the greeter's direct answer (message), the retention
  response, and the processor's confirmation (e-mail, reason).
\<close>

datatype prompt =
    ClassifyPrompt string string "customer option"
  | AnswerPrompt string
  | RetentionPrompt retention_prompt
  | CancellationPrompt string string

text \<open>
  The opaque collaborators and the files of one deployment: the text generator, the
  policy index (\<open>get_relevant_context(query, k)\<close>), \<open>re.findall\<close> with the e-mail
  pattern, the lookup of \<open>customers.csv\<close> by e-mail (\<open>None\<close> for the error dict),
  \<open>json.loads\<close> on a text that starts with a brace (\<open>None\<close> when it raises), Python's
  \<open>repr\<close> of a parsed value, \<open>retention_rules.json\<close>, the agent's
  \<open>max_discount_percentage\<close> of its \<open>authorization_levels\<close>, and whether
  \<open>customer_updates.log\<close> can be appended to.
\<close>

record env =
  llm :: "prompt \<Rightarrow> string"
  rag :: "string \<Rightarrow> nat \<Rightarrow> string"
  find_emails :: "string \<Rightarrow> string list"
  customers :: "string \<Rightarrow> customer option"
  json_loads :: "string \<Rightarrow> jobj option"
  py_repr :: "jval \<Rightarrow> string"
  retention_rules :: rules
  max_discount_percentage :: "int option"
  log_writable :: bool

subsection \<open>Cleaning the generated text\<close>

text \<open>\<open>s.split(sep)\<close> for a one-character separator, and \<open>sep.join(xs)\<close>.\<close>

fun split_on :: "char \<Rightarrow> string \<Rightarrow> string list" where
  "split_on sep [] = [[]]"
| "split_on sep (c # cs) =
     (if c = sep then [] # split_on sep cs
      else (case split_on sep cs of
              l # ls \<Rightarrow> (c # l) # ls
            | [] \<Rightarrow> [[c]]))"

fun join_with :: "string \<Rightarrow> string list \<Rightarrow> string" where
  "join_with sep [] = []"
| "join_with sep [x] = x"
| "join_with sep (x # y # ys) = x @ sep @ join_with sep (y # ys)"

definition strip :: "string \<Rightarrow> string" where
  "strip s = rev (dropWhile is_space (rev (dropWhile is_space s)))"

definition reasoning_phrases :: "string list" where
  "reasoning_phrases =
     [''in this response'', ''i'm empathizing'', ''i'm offering'',
      ''this option provides'', ''i'm presenting'', ''in this response i'm'']"

text \<open>The loop over \<open>lines\<close> with its flag \<open>reasoning_started\<close> and its result \<open>cleaned_lines\<close>.\<close>

fun clean_lines :: "string list \<Rightarrow> bool \<Rightarrow> string list \<Rightarrow> string list" where
  "clean_lines [] reasoning_started cleaned_lines = cleaned_lines"
| "clean_lines (line # rest) reasoning_started cleaned_lines =
     (let line_lower = strip (lower line) in
      if any_in reasoning_phrases line_lower then clean_lines rest True cleaned_lines
      else if reasoning_started then clean_lines rest reasoning_started cleaned_lines
      else clean_lines rest reasoning_started (cleaned_lines @ [line]))"

definition clean_response :: "string \<Rightarrow> string" where
  "clean_response content =
     (let response_text = strip (join_with ''\<newline>'' (clean_lines (split_on CHR ''\<newline>'' content) False []))
      in if response_text = [] then content else response_text)"

subsection \<open>\<open>RetentionAgent.process\<close>\<close>

definition acceptance_phrases :: "string list" where
  "acceptance_phrases =
     [''process the cancellation'', ''proceed with cancellation'',
      ''process your cancellation'', ''i understand your decision to cancel'',
      ''respect your choice to cancel'', ''proceed with canceling'']"

definition offer_phrases :: "string list" where
  "offer_phrases = [''before we'', ''let me offer'', ''i can arrange'', ''we can'', ''how about'']"

definition max_agent_discount :: "env \<Rightarrow> int" where
  "max_agent_discount e = (case max_discount_percentage e of None \<Rightarrow> 25 | Some m \<Rightarrow> m)"

record retention_result =
  rr_agent :: string
  rr_response :: string
  rr_reason :: string
  rr_offers_available :: bool
  rr_offers :: "offer list"
  rr_should_process_cancellation :: bool
  rr_customer_tier :: string

text \<open>
  \<open>process\<close> leaves by the \<open>ValueError\<close> of the percentage scan exactly when
  \<open>process_raises\<close>; \<open>process_prompt\<close> and \<open>process\<close> are the prompt and the result of
  every other run, so the first branch of the \<open>case\<close> on the scan is never theirs.
\<close>

definition process_raises :: "env \<Rightarrow> string \<Rightarrow> bool" where
  "process_raises e customer_message =
     (discount_warning customer_message (max_agent_discount e) = Inl ValueError)"

text \<open>The values \<open>process\<close> computes before it calls the generator, as the prompt carries them.\<close>

definition process_prompt :: "env \<Rightarrow> string \<Rightarrow> customer \<Rightarrow> string list \<Rightarrow> retention_prompt" where
  "process_prompt e customer_message customer_data conversation_history =
     (let reason = classify_reason customer_message;
          customer_tier = customer_tier_of customer_data;
          offers_result = calculate_retention_offer (retention_rules e) customer_tier reason;
          agent_offers = fst (partition_offers offers_result)
      in \<lparr> rp_message = customer_message,
           rp_customer_data = customer_data,
           rp_customer_tier = customer_tier,
           rp_reason = reason,
           rp_max_agent_discount = max_agent_discount e,
           rp_discount_warning =
             (case discount_warning customer_message (max_agent_discount e) of
                Inl err \<Rightarrow> None
              | Inr w \<Rightarrow> w),
           rp_agent_offers = agent_offers,
           rp_recent = drop (length conversation_history - 3) conversation_history \<rparr>)"

definition process :: "env \<Rightarrow> string \<Rightarrow> string \<Rightarrow> customer \<Rightarrow> string list \<Rightarrow> retention_result" where
  "process e customer_message customer_email customer_data conversation_history =
     (let p = process_prompt e customer_message customer_data conversation_history;
          agent_offers = rp_agent_offers p;
          response_text = clean_response (llm e (RetentionPrompt p));
          response_lower = lower response_text;
          should_process_cancellation =
            (any_in acceptance_phrases response_lower \<and> \<not> any_in offer_phrases response_lower)
      in \<lparr> rr_agent = ''retention'',
           rr_response = response_text,
           rr_reason = rp_reason p,
           rr_offers_available = (length agent_offers > 0),
           rr_offers = agent_offers,
           rr_should_process_cancellation = should_process_cancellation,
           rr_customer_tier = rp_customer_tier p \<rparr>)"

section \<open>Greeter agent\<close>

text \<open>
  \<open>re.search(r'\{[^{}]*(?:\{[^{}]*\}[^{}]*)*\}', text, re.DOTALL)\<close>. After the opening
  brace, \<open>match_tail False\<close> is the regex outside an inner group and \<open>match_tail True\<close>
  inside one: a character that is no brace is consumed by \<open>[^{}]*\<close>; an opening brace
  starts a group outside one and fails inside one; a closing brace ends the group inside
  one and ends the match outside. The classes are disjoint, so there is nothing to
  backtrack to. The result is the matched text after the opening brace.
\<close>

fun match_tail :: "bool \<Rightarrow> string \<Rightarrow> string option" where
  "match_tail inner [] = None"
| "match_tail inner (c # cs) =
     (if c = CHR ''{'' then
        (if inner then None else map_option (Cons c) (match_tail True cs))
      else if c = CHR ''}'' then
        (if inner then map_option (Cons c) (match_tail False cs) else Some [c])
      else map_option (Cons c) (match_tail inner cs))"

definition match_json_here :: "string \<Rightarrow> string option" where
  "match_json_here s =
     (case s of
        [] \<Rightarrow> None
      | c # cs \<Rightarrow> if c = CHR ''{'' then map_option (Cons c) (match_tail False cs) else None)"

fun re_search_json :: "string \<Rightarrow> string option" where
  "re_search_json [] = None"
| "re_search_json (c # cs) =
     (case match_json_here (c # cs) of
        Some m \<Rightarrow> Some m
      | None \<Rightarrow> re_search_json cs)"

record greeter_result =
  gr_agent :: string
  gr_intent :: jval
  gr_customer_email :: string
  gr_customer_data :: "customer option"
  gr_next_agent :: jval
  gr_reasoning :: jval
  gr_raw_response :: string

text \<open>
  The \<open>return\<close> of \<open>GreeterAgent.process\<close>, from the dict \<open>result\<close>. The e-mail is a
  string in the model: \<open>result.get("customer_email") or customer_email\<close> is the member
  when it is a non-empty string and \<open>customer_email\<close> when it is missing or falsy (a
  truthy member that is no string is outside the model).
\<close>

definition greeter_return :: "jobj \<Rightarrow> string \<Rightarrow> customer option \<Rightarrow> string \<Rightarrow> greeter_result" where
  "greeter_return result customer_email customer_data response_text =
     \<lparr> gr_agent = ''greeter'',
       gr_intent = (case map_of result ''intent'' of None \<Rightarrow> JStr ''general'' | Some v \<Rightarrow> v),
       gr_customer_email =
         (case map_of result ''customer_email'' of
            Some (JStr s) \<Rightarrow> if s \<noteq> [] then s else customer_email
          | _ \<Rightarrow> customer_email),
       gr_customer_data = customer_data,
       gr_next_agent = (case map_of result ''next_agent'' of None \<Rightarrow> JStr ''none'' | Some v \<Rightarrow> v),
       gr_reasoning = (case map_of result ''reasoning'' of None \<Rightarrow> JStr response_text | Some v \<Rightarrow> v),
       gr_raw_response = response_text \<rparr>"

text \<open>The e-mail after the first \<open>if\<close> of \<open>process\<close>, and the profile after the second.\<close>

definition resolve_email :: "env \<Rightarrow> string \<Rightarrow> string \<Rightarrow> string" where
  "resolve_email e customer_message customer_email =
     (if customer_email = [] then
        (case find_emails e customer_message of
           [] \<Rightarrow> customer_email
         | x # xs \<Rightarrow> x)
      else customer_email)"

definition lookup_customer :: "env \<Rightarrow> string \<Rightarrow> customer option" where
  "lookup_customer e customer_email =
     (if customer_email \<noteq> [] then customers e customer_email else None)"

definition greeter_process :: "env \<Rightarrow> string \<Rightarrow> string \<Rightarrow> greeter_result" where
  "greeter_process e customer_message customer_email0 =
     (let customer_email = resolve_email e customer_message customer_email0;
          customer_data = lookup_customer e customer_email;
          response_text = llm e (ClassifyPrompt customer_message customer_email customer_data);
          result =
            (case re_search_json response_text of
               Some json_match \<Rightarrow>
                 (case json_loads e json_match of
                    Some parsed \<Rightarrow>
                      if map_of parsed ''intent'' = None \<or> map_of parsed ''next_agent'' = None
                        then parse_fallback customer_message customer_email
                      else parsed
                  | None \<Rightarrow> parse_fallback customer_message customer_email)
             | None \<Rightarrow> parse_fallback customer_message customer_email)
      in greeter_return result customer_email customer_data response_text)"

text \<open>
  The outermost balanced-brace object, in the words of the specification: from the first
  opening brace to the closing brace that brings the nesting depth back to zero.
\<close>

fun spec_close :: "nat \<Rightarrow> string \<Rightarrow> string option" where
  "spec_close d [] = None"
| "spec_close d (c # cs) =
     (if c = CHR ''{'' then map_option (Cons c) (spec_close (Suc d) cs)
      else if c = CHR ''}'' then
        (case d of 0 \<Rightarrow> Some [c] | Suc d' \<Rightarrow> map_option (Cons c) (spec_close d' cs))
      else map_option (Cons c) (spec_close d cs))"

definition spec_outermost_object :: "string \<Rightarrow> string option" where
  "spec_outermost_object s =
     (case dropWhile (\<lambda>c. c \<noteq> CHR ''{'') s of
        [] \<Rightarrow> None
      | c # cs \<Rightarrow> map_option (Cons c) (spec_close 0 cs))"

section \<open>Processor agent and the audit log\<close>

text \<open>
  \<open>customer_updates.log\<close> as the list of its entries \<open>(customer_id, action)\<close>; the
  time stamp of an entry is left out. \<open>update_customer_status\<close> returns whether the
  append succeeded (its \<open>"success"\<close> member) and the log after the call.
\<close>

type_synonym audit_log = "(string \<times> string) list"

definition update_customer_status :: "env \<Rightarrow> audit_log \<Rightarrow> string \<Rightarrow> string \<Rightarrow> bool \<times> audit_log" where
  "update_customer_status e log customer_id action =
     (if log_writable e then (True, log @ [(customer_id, action)]) else (False, log))"

record cancellation_result =
  pc_agent :: string
  pc_response :: string
  pc_customer_id :: string
  pc_action :: string
  pc_update_logged :: bool

definition process_cancellation ::
    "env \<Rightarrow> audit_log \<Rightarrow> string \<Rightarrow> string \<Rightarrow> string \<Rightarrow> cancellation_result \<times> audit_log" where
  "process_cancellation e log customer_id customer_email reason =
     (let (logged, log') = update_customer_status e log customer_id (''cancel_'' @ reason);
          response = llm e (CancellationPrompt customer_email reason)
      in (\<lparr> pc_agent = ''processor'',
            pc_response = response,
            pc_customer_id = customer_id,
            pc_action = ''cancellation_processed'',
            pc_update_logged = logged \<rparr>, log'))"

section \<open>Workflow\<close>

text \<open>
  An entry of \<open>agent_responses\<close>: the members \<open>agent\<close> and \<open>response\<close>, and the members
  only some nodes write (\<open>None\<close> where the dict has no such key).
\<close>

record agent_response =
  ar_agent :: string
  ar_response :: string
  ar_reasoning :: "jval option"
  ar_offers :: "offer list option"
  ar_should_process_cancellation :: "bool option"
  ar_action :: "string option"

text \<open>
  \<open>ConversationState\<close>. \<open>intent\<close> and \<open>next_agent\<close> hold what the classifier's JSON
  carried, so they are parsed values; an empty \<open>customer_data\<close> is the empty dict.
\<close>

record state =
  customer_message :: string
  customer_email :: string
  customer_data :: customer
  intent :: jval
  next_agent :: jval
  conversation_history :: "string list"
  agent_responses :: "agent_response list"
  final_action :: string
  completed :: bool
  should_process_cancellation :: bool

text \<open>\<open>str(v)\<close> as an f-string renders a parsed value: a string is itself.\<close>

definition py_str :: "env \<Rightarrow> jval \<Rightarrow> string" where
  "py_str e v = (case v of JStr s \<Rightarrow> s | _ \<Rightarrow> py_repr e v)"

definition simple_response :: "string \<Rightarrow> string \<Rightarrow> agent_response" where
  "simple_response a r =
     \<lparr> ar_agent = a, ar_response = r, ar_reasoning = None, ar_offers = None,
       ar_should_process_cancellation = None, ar_action = None \<rparr>"

definition greeter_node :: "env \<Rightarrow> state \<Rightarrow> state" where
  "greeter_node e st0 =
     (let result = greeter_process e (customer_message st0) (customer_email st0);
          st = st0 \<lparr> intent := gr_intent result,
                     next_agent := gr_next_agent result,
                     customer_email :=
                       (if gr_customer_email result \<noteq> [] then gr_customer_email result
                        else customer_email st0),
                     customer_data :=
                       (case gr_customer_data result of None \<Rightarrow> [] | Some d \<Rightarrow> d) \<rparr>
      in if gr_intent result = JStr ''general'' \<and> gr_next_agent result = JStr ''none'' then
           st \<lparr> agent_responses := agent_responses st @
                   [(simple_response ''greeter'' (llm e (AnswerPrompt (customer_message st))))
                      \<lparr> ar_reasoning := Some (JStr ''Answered using RAG from policy documents'') \<rparr>],
                completed := True \<rparr>
         else
           st \<lparr> agent_responses := agent_responses st @
                   [(simple_response ''greeter''
                       (''Intent classified: '' @ py_str e (gr_intent result)
                        @ ''. Routing to '' @ py_str e (gr_next_agent result) @ ''.''))
                      \<lparr> ar_reasoning := Some (gr_reasoning result) \<rparr>] \<rparr>)"

text \<open>
  The two preparations of \<open>_retention_node\<close>: the profile fetched when the state has
  none, and the history handed to the planner.
\<close>

definition fetch_customer_data :: "env \<Rightarrow> state \<Rightarrow> state" where
  "fetch_customer_data e st =
     (if customer_data st = [] \<and> customer_email st \<noteq> [] then
        (case customers e (customer_email st) of
           Some c \<Rightarrow> st \<lparr> customer_data := c \<rparr>
         | None \<Rightarrow> st)
      else st)"

definition node_history :: "state \<Rightarrow> string list" where
  "node_history st =
     (if conversation_history st = [] \<and> agent_responses st \<noteq> [] then
        map ar_response (filter (\<lambda>resp. ar_agent resp = ''retention'') (agent_responses st))
      else conversation_history st)"

definition retention_node :: "env \<Rightarrow> state \<Rightarrow> state" where
  "retention_node e st0 =
     (let st = fetch_customer_data e st0;
          history = node_history st;
          result = process e (customer_message st) (customer_email st) (customer_data st) history
      in st \<lparr> agent_responses := agent_responses st @
                 [(simple_response ''retention'' (rr_response result))
                    \<lparr> ar_offers := Some (rr_offers result),
                      ar_should_process_cancellation :=
                        Some (rr_should_process_cancellation result) \<rparr>],
              should_process_cancellation := rr_should_process_cancellation result,
              conversation_history :=
                conversation_history st @ [customer_message st, rr_response result] \<rparr>)"

text \<open>\<open>customer_data.get("customer_id", "UNKNOWN")\<close> of \<open>_processor_node\<close>.\<close>

definition customer_id_of :: "state \<Rightarrow> string" where
  "customer_id_of st =
     (case map_of (customer_data st) ''customer_id'' of None \<Rightarrow> ''UNKNOWN'' | Some i \<Rightarrow> i)"

definition processor_node :: "env \<Rightarrow> audit_log \<Rightarrow> state \<Rightarrow> state \<times> audit_log" where
  "processor_node e log st =
     (let customer_id = customer_id_of st;
          (result, log') =
            process_cancellation e log customer_id (customer_email st) (py_str e (intent st))
      in (st \<lparr> agent_responses := agent_responses st @
                  [(simple_response ''processor'' (pc_response result))
                     \<lparr> ar_action := Some ''cancellation_processed'' \<rparr>],
               final_action := ''cancellation_processed'',
               completed := True \<rparr>, log'))"

definition technical_support_node :: "env \<Rightarrow> state \<Rightarrow> state" where
  "technical_support_node e st =
     (let context = rag e (customer_message st) 3;
          response =
            ''I understand you're experiencing technical issues. Let me connect you with our technical support team.\<newline>\<newline>Based on your issue, here's some helpful information:\<newline>''
            @ take 500 context
            @ ''\<newline>\<newline>Our technical specialist will be able to help you resolve this. Would you like me to schedule a callback, or would you prefer to speak with someone right now?''
      in st \<lparr> agent_responses := agent_responses st @ [simple_response ''technical_support'' response],
              final_action := ''routed_to_technical_support'',
              completed := True \<rparr>)"

definition billing_node :: "state \<Rightarrow> state" where
  "billing_node st =
     (let response =
            ''I understand you have a billing question. Let me connect you with our billing department who can help clarify your charges.\<newline>\<newline>For billing inquiries, our team can:\<newline>- Explain charges on your account\<newline>- Review payment history\<newline>- Adjust billing if there are errors\<newline>- Set up payment plans if needed\<newline>\<newline>Would you like me to transfer you to billing now?''
      in st \<lparr> agent_responses := agent_responses st @ [simple_response ''billing'' response],
              final_action := ''routed_to_billing'',
              completed := True \<rparr>)"

definition route_from_greeter :: "state \<Rightarrow> string" where
  "route_from_greeter st =
     (if next_agent st = JStr ''retention'' then ''retention''
      else if next_agent st = JStr ''technical_support'' then ''technical_support''
      else if next_agent st = JStr ''billing'' then ''billing''
      else ''end'')"

definition route_from_retention :: "state \<Rightarrow> string" where
  "route_from_retention st =
     (if should_process_cancellation st \<and> agent_responses st \<noteq> []
         \<and> ar_agent (last (agent_responses st)) = ''retention''
         \<and> any_in [''process the cancellation'', ''proceed with cancellation'',
                    ''i understand your decision'', ''respect your choice to cancel'']
              (lower (ar_response (last (agent_responses st))))
        then ''processor''
      else ''end'')"

text \<open>
  The compiled graph of \<open>_build_workflow\<close>: the greeter, then the node its router names,
  the processor after the retention node when its router says so.
\<close>

definition workflow_invoke :: "env \<Rightarrow> audit_log \<Rightarrow> state \<Rightarrow> state \<times> audit_log" where
  "workflow_invoke e log st0 =
     (let st = greeter_node e st0;
          route = route_from_greeter st
      in if route = ''retention'' then
           (let st' = retention_node e st in
            if route_from_retention st' = ''processor'' then processor_node e log st'
            else (st', log))
         else if route = ''technical_support'' then (technical_support_node e st, log)
         else if route = ''billing'' then (billing_node st, log)
         else (st, log))"

definition insistence_phrases :: "string list" where
  "insistence_phrases =
     [''still want to cancel'', ''just cancel'', ''cancel anyway'',
      ''no i want to cancel'', ''proceed with cancellation'']"

definition billing_affirmative :: "string list" where
  "billing_affirmative = [''yes'', ''sure'', ''ok'', ''transfer'', ''connect'']"

definition technical_affirmative :: "string list" where
  "technical_affirmative = [''yes'', ''sure'', ''ok'', ''schedule'', ''callback'']"

definition billing_confirmation :: string where
  "billing_confirmation =
     ''Perfect! I'm connecting you with our billing department now. They'll be able to review your account and explain the $17.99 charge. You should hear from them shortly. Is there anything else I can help you with?''"

definition billing_elaboration :: "string \<Rightarrow> string" where
  "billing_elaboration context =
     ''I understand you'd like more information. Here's what I can tell you:\<newline>\<newline>''
     @ take 300 context
     @ ''\<newline>\<newline>Our billing team can provide the exact breakdown. Would you like me to connect you now?''"

definition technical_confirmation :: string where
  "technical_confirmation =
     ''Great! I'm scheduling a callback with our technical specialist for you. They'll call you within the next hour to help resolve your charging issue. Is there anything else I can help you with?''"

definition technical_elaboration :: "string \<Rightarrow> string" where
  "technical_elaboration context =
     ''Let me provide some additional troubleshooting steps:\<newline>\<newline>''
     @ take 300 context
     @ ''\<newline>\<newline>Would you like me to schedule a callback with our technical specialist?''"

definition initial_state :: "string \<Rightarrow> string \<Rightarrow> state" where
  "initial_state msg email =
     \<lparr> customer_message = msg, customer_email = email, customer_data = [],
       intent = JStr [], next_agent = JStr [], conversation_history = [],
       agent_responses = [], final_action = [], completed = False,
       should_process_cancellation = False \<rparr>"

text \<open>The first lines of the continuing branch of \<open>run\<close>: the copy of the previous state.\<close>

definition continue_state :: "state \<Rightarrow> string \<Rightarrow> string \<Rightarrow> state" where
  "continue_state previous_state msg email =
     previous_state
       \<lparr> customer_message := msg,
         customer_email := (if email \<noteq> [] then email else customer_email previous_state),
         completed := False,
         conversation_history := conversation_history previous_state @ [msg] \<rparr>"

definition last_agent_type :: "state \<Rightarrow> string option" where
  "last_agent_type st =
     (if agent_responses st = [] then None else Some (ar_agent (last (agent_responses st))))"

text \<open>\<open>MultiAgentWorkflow.run(customer_message, customer_email, previous_state)\<close>.\<close>

definition run :: "env \<Rightarrow> audit_log \<Rightarrow> string \<Rightarrow> string \<Rightarrow> state option \<Rightarrow> state \<times> audit_log" where
  "run e log msg email previous =
     (case previous of
        Some previous_state \<Rightarrow>
          (let st = continue_state previous_state msg email;
               message_lower = lower msg
           in if last_agent_type st = Some ''retention'' then
                (let insists_on_cancel = any_in insistence_phrases message_lower;
                     st' = retention_node e (st \<lparr> next_agent := JStr ''retention'' \<rparr>)
                 in if insists_on_cancel \<or> should_process_cancellation st'
                      then processor_node e log st'
                    else (st', log))
              else if last_agent_type st = Some ''billing'' then
                (let r = (if any_in billing_affirmative message_lower then billing_confirmation
                          else billing_elaboration
                                 (rag e ''billing charges, pricing, fees, account charges'' 2))
                 in (st \<lparr> agent_responses := agent_responses st @ [simple_response ''billing'' r],
                          final_action := ''billing_followup'',
                          completed := True \<rparr>, log))
              else if last_agent_type st = Some ''technical_support'' then
                (let r = (if any_in technical_affirmative message_lower
                            then technical_confirmation
                          else technical_elaboration (rag e msg 2))
                 in (st \<lparr> agent_responses := agent_responses st
                            @ [simple_response ''technical_support'' r],
                          final_action := ''technical_support_followup'',
                          completed := True \<rparr>, log))
              else workflow_invoke e log (st \<lparr> intent := JStr [], next_agent := JStr [] \<rparr>))
      | None \<Rightarrow> workflow_invoke e log (initial_state msg email))"

text \<open>
  One turn of the loop of \<open>main\<close>, from the message read to the call of \<open>run\<close>: the
  session state is dropped after a stand-alone general question.
\<close>

definition main_turn :: "env \<Rightarrow> audit_log \<Rightarrow> state option \<Rightarrow> string \<Rightarrow> string \<Rightarrow> state \<times> audit_log" where
  "main_turn e log conversation_state msg email =
     (let conversation_state' =
            (case conversation_state of
               None \<Rightarrow> None
             | Some st \<Rightarrow>
                 if intent st = JStr ''general'' \<and> next_agent st = JStr ''none'' then None
                 else Some st)
      in run e log msg email conversation_state')"

section \<open>Vocabulary of the properties\<close>

text \<open>An offer the agent may make: tagged \<open>agent\<close>, or without an authorization tag.\<close>

definition agent_level :: "offer \<Rightarrow> bool" where
  "agent_level offer =
     (map_of offer ''authorization'' = Some (JStr ''agent'')
      \<or> map_of offer ''authorization'' = None)"

definition manager_level :: "offer \<Rightarrow> bool" where
  "manager_level offer = (map_of offer ''authorization'' = Some (JStr ''manager''))"

text \<open>
  The pattern of a percentage request, in the words of the specification: the message
  has the digits \<open>g\<close> after the text \<open>pre\<close>, followed by optional whitespace and a
  percent sign.
\<close>

definition spec_pct_match :: "string \<Rightarrow> string \<Rightarrow> string \<Rightarrow> bool" where
  "spec_pct_match msg pre g =
     (\<exists>ws rest. msg = pre @ g @ ws @ CHR ''%'' # rest
        \<and> g \<noteq> [] \<and> list_all is_digit g \<and> list_all is_space ws)"


text \<open>The values of the requests of a message, read off position by position.\<close>

fun spec_pct_requests :: "string \<Rightarrow> int list" where
  "spec_pct_requests [] = []"
| "spec_pct_requests (c # cs) =
     (case match_pct_here (c # cs) of
        Some g \<Rightarrow> int_of_digits g # spec_pct_requests cs
      | None \<Rightarrow> spec_pct_requests cs)"

text \<open>The deepest nesting of braces a text reaches, read from depth \<open>d\<close>.\<close>

fun spec_nest :: "nat \<Rightarrow> string \<Rightarrow> nat" where
  "spec_nest d [] = d"
| "spec_nest d (c # cs) =
     (if c = CHR ''{'' then spec_nest (Suc d) cs
      else if c = CHR ''}'' then max d (spec_nest (d - 1) cs)
      else spec_nest d cs)"

text \<open>
  The text the generator returns for the classification of a message, and the value
  \<open>GreeterAgent.process\<close> returns from a dict \<open>result\<close> and from the keyword cascade.
\<close>

definition classifier_reply :: "env \<Rightarrow> string \<Rightarrow> string \<Rightarrow> string" where
  "classifier_reply e msg email =
     llm e (ClassifyPrompt msg (resolve_email e msg email)
              (lookup_customer e (resolve_email e msg email)))"

definition greeter_from :: "env \<Rightarrow> string \<Rightarrow> string \<Rightarrow> jobj \<Rightarrow> greeter_result" where
  "greeter_from e msg email result =
     greeter_return result (resolve_email e msg email)
       (lookup_customer e (resolve_email e msg email)) (classifier_reply e msg email)"

definition greeter_fallback :: "env \<Rightarrow> string \<Rightarrow> string \<Rightarrow> greeter_result" where
  "greeter_fallback e msg email =
     greeter_from e msg email (parse_fallback msg (resolve_email e msg email))"



section \<open>A sample deployment\<close>

text \<open>
  A small catalog, a scripted generator and two customers, to run the definitions on.
  The scripted generator never answers the classification in JSON, so the greeter
  classifies by its keyword cascade.
\<close>

definition sample_rules :: rules where
  "sample_rules =
     [(''financial_hardship'',
         [(''premium_customers'',
             [[(''type'', JStr ''pause''), (''duration_months'', JNum 3),
               (''authorization'', JStr ''agent'')],
              [(''type'', JStr ''discount''), (''percentage'', JNum 50),
               (''authorization'', JStr ''manager'')],
              [(''type'', JStr ''explain_benefits'')],
              [(''type'', JStr ''custom_plan''), (''authorization'', JStr ''director'')]]),
          (''regular_customers'',
             [[(''type'', JStr ''discount''), (''percentage'', JNum 25),
               (''authorization'', JStr ''agent'')]]),
          (''new_customers'', [])]),
      (''product_issues'',
         [(''overheating'',
             [[(''type'', JStr ''replacement''), (''authorization'', JStr ''agent'')]])]),
      (''service_value'',
         [(''care_plus_premium'', [[(''type'', JStr ''explain_benefits'')]])]),
      (''authorization_levels'', [])]"

definition sample_llm :: "prompt \<Rightarrow> string" where
  "sample_llm p =
     (case p of
        ClassifyPrompt m e c \<Rightarrow> ''I would route this customer to a specialist.''
      | AnswerPrompt m \<Rightarrow> ''Care+ covers accidental damage.''
      | RetentionPrompt rp \<Rightarrow>
          if py_in ''just cancel'' (lower (rp_message rp))
            then ''I respect your choice to cancel.''
          else ''I am sorry to hear that. How about a payment pause?''
      | CancellationPrompt e r \<Rightarrow> ''Your Care+ plan is cancelled.'')"

definition sample_customers :: "string \<Rightarrow> customer option" where
  "sample_customers =
     map_of
       [(''sarah.chen@email.com'',
           [(''customer_id'', ''CUST_001''), (''name'', ''Sarah Chen''), (''tier'', ''premium'')]),
        (''maria.garcia@email.com'',
           [(''customer_id'', ''CUST_005''), (''name'', ''Maria Garcia''), (''tier'', ''regular'')])]"

definition sample_env :: env where
  "sample_env =
     \<lparr> llm = sample_llm,
       rag = (\<lambda>query k. ''[Source: policy]''),
       find_emails = (\<lambda>m. []),
       customers = sample_customers,
       json_loads = (\<lambda>t. None),
       py_repr = (\<lambda>v. ''?''),
       retention_rules = sample_rules,
       max_discount_percentage = Some 25,
       log_writable = True \<rparr>"

text \<open>
  A classification whose JSON object nests two levels deep, and \<open>json.loads\<close> on the
  two brace-delimited texts in it.
\<close>

definition nested_reply :: string where
  "nested_reply =
     ''Sure. {\"intent\": \"billing\", \"next_agent\": \"billing\", \"meta\": {\"a\": {\"b\": 1}}} Done.''"

definition nested_outer :: string where
  "nested_outer =
     ''{\"intent\": \"billing\", \"next_agent\": \"billing\", \"meta\": {\"a\": {\"b\": 1}}}''"

definition nested_env :: env where
  "nested_env =
     sample_env
       \<lparr> llm := (\<lambda>p. nested_reply),
         json_loads :=
           map_of
             [(nested_outer,
                 [(''intent'', JStr ''billing''), (''next_agent'', JStr ''billing''),
                  (''meta'', JObj [(''a'', JObj [(''b'', JNum 1)])])]),
              (''{\"a\": {\"b\": 1}}'', [(''a'', JObj [(''b'', JNum 1)])])] \<rparr>"

text \<open>A reply with a flat JSON object inside prose, and \<open>json.loads\<close> on that object.\<close>

definition flat_reply :: string where
  "flat_reply =
     ''Here it is: {\"intent\": \"technical_support\", \"next_agent\": \"technical_support\"} .''"

definition flat_env :: env where
  "flat_env =
     sample_env
       \<lparr> llm := (\<lambda>p. flat_reply),
         json_loads :=
           map_of
             [(''{\"intent\": \"technical_support\", \"next_agent\": \"technical_support\"}'',
                 [(''intent'', JStr ''technical_support''),
                  (''next_agent'', JStr ''technical_support'')])] \<rparr>"


definition billing_turn :: state where
  "billing_turn =
     fst (run sample_env [] ''got charged $15.99 but thought care+ was $12.99''
            ''maria.garcia@email.com'' None)"

definition technical_turn :: state where
  "technical_turn =
     fst (run sample_env [] ''my phone won't charge anymore'' [] None)"

definition general_turn :: state where
  "general_turn = fst (run sample_env [] ''what does care+ cover?'' [] None)"

section \<open>Properties\<close>

lemma py_in_sublist: "py_in p t = sublist p t"
proof (induction t)
  case Nil
  show ?case by simp
next
  case (Cons c cs)
  show ?case
  proof (cases p)
    case Nil
    then show ?thesis by simp
  next
    case (Cons a as)
    with Cons.IH show ?thesis by (simp add: sublist_Cons_right)
  qed
qed

lemma fallback_intent_cancellation:
  "any_in cancellation_phrases t \<Longrightarrow> fallback_intent t = ''cancellation''"
  by (simp add: fallback_intent_def)

lemma fallback_intent_other:
  "fallback_intent t = ''technical_support'' \<or> fallback_intent t = ''billing''
     \<Longrightarrow> \<not> any_in cancellation_phrases t"
  by (auto simp: fallback_intent_def split: if_splits)

text \<open>
  C1. Whenever the lower-cased message contains a phrase of the cancellation list, the
  fallback classifier answers intent \<open>cancellation\<close> and next agent \<open>retention\<close>,
  whatever technical or billing phrases the message also contains; and an answer of
  \<open>technical_support\<close> or \<open>billing\<close> is only given for a message with no cancellation
  phrase.
\<close>

theorem C1_cancellation_precedence:
  "(any_in cancellation_phrases (lower text) \<longrightarrow>
      map_of (parse_fallback text email) ''intent'' = Some (JStr ''cancellation'')
      \<and> map_of (parse_fallback text email) ''next_agent'' = Some (JStr ''retention''))
   \<and> (map_of (parse_fallback text email) ''intent''
          \<in> {Some (JStr ''technical_support''), Some (JStr ''billing'')}
        \<longrightarrow> \<not> any_in cancellation_phrases (lower text))"
proof (intro conjI impI)
  assume c: "any_in cancellation_phrases (lower text)"
  then show "map_of (parse_fallback text email) ''intent'' = Some (JStr ''cancellation'')"
    by (simp add: parse_fallback_def Let_def fallback_intent_cancellation)
  from c show "map_of (parse_fallback text email) ''next_agent'' = Some (JStr ''retention'')"
    by (simp add: parse_fallback_def Let_def fallback_intent_cancellation
        fallback_next_agent_def)
next
  assume "map_of (parse_fallback text email) ''intent''
            \<in> {Some (JStr ''technical_support''), Some (JStr ''billing'')}"
  then have "fallback_intent (lower text) = ''technical_support''
             \<or> fallback_intent (lower text) = ''billing''"
    by (simp add: parse_fallback_def Let_def)
  then show "\<not> any_in cancellation_phrases (lower text)"
    by (rule fallback_intent_other)
qed

theorem C1_cancellation_precedence_witness:
  "any_in cancellation_phrases (lower ''My phone keeps overheating, CANCEL everything'')
   \<and> any_in technical_phrases (lower ''My phone keeps overheating, CANCEL everything'')
   \<and> map_of (parse_fallback ''My phone keeps overheating, CANCEL everything'' []) ''intent''
        = Some (JStr ''cancellation'')
   \<and> map_of (parse_fallback ''My phone keeps overheating, CANCEL everything'' [])
        ''next_agent'' = Some (JStr ''retention'')
   \<and> map_of (parse_fallback ''my phone won't charge anymore'' []) ''intent''
        = Some (JStr ''technical_support'')
   \<and> \<not> any_in cancellation_phrases (lower ''my phone won't charge anymore'')"
proof -
  have a: "any_in cancellation_phrases (lower ''My phone keeps overheating, CANCEL everything'')"
    by code_simp
  have b: "any_in technical_phrases (lower ''My phone keeps overheating, CANCEL everything'')"
    by code_simp
  have c: "map_of (parse_fallback ''my phone won't charge anymore'' []) ''intent''
             = Some (JStr ''technical_support'')"
    by code_simp
  from a b c
    C1_cancellation_precedence [of "''My phone keeps overheating, CANCEL everything''" "[]"]
    C1_cancellation_precedence [of "''my phone won't charge anymore''" "[]"]
  show ?thesis by simp
qed

subsection \<open>Retention agent\<close>



lemma split_offers_filter:
  "split_offers xs (a, m) = (a @ filter agent_level xs, m @ filter manager_level xs)"
  by (induction xs arbitrary: a m) (auto simp: agent_level_def manager_level_def)

lemma partition_offers_success:
  "partition_offers (OfferSuccess t r xs) = (filter agent_level xs, filter manager_level xs)"
  by (simp add: partition_offers_def split_offers_filter)

lemma rr_offers_process:
  "rr_offers (process e msg email data hist) =
     fst (partition_offers (calculate_retention_offer (retention_rules e)
            (customer_tier_of data) (classify_reason msg)))"
  by (simp add: process_def process_prompt_def Let_def)

lemma rp_agent_offers_process:
  "rp_agent_offers (process_prompt e msg data hist) =
     fst (partition_offers (calculate_retention_offer (retention_rules e)
            (customer_tier_of data) (classify_reason msg)))"
  by (simp add: process_prompt_def Let_def)

lemma sample_premium_offers:
  "calculate_retention_offer (retention_rules sample_env)
     (customer_tier_of [(''tier'', ''premium'')]) (classify_reason ''I can't afford it'')
   = OfferSuccess ''premium'' ''financial_hardship''
       [[(''type'', JStr ''pause''), (''duration_months'', JNum 3),
         (''authorization'', JStr ''agent'')],
        [(''type'', JStr ''discount''), (''percentage'', JNum 50),
         (''authorization'', JStr ''manager'')],
        [(''type'', JStr ''explain_benefits'')],
        [(''type'', JStr ''custom_plan''), (''authorization'', JStr ''director'')]]"
  by code_simp

text \<open>
  C3. When the catalog returns a list of offers, the offers \<open>RetentionAgent.process\<close>
  returns are exactly those of the list, in order, whose authorization is \<open>agent\<close> or
  absent; no offer whose authorization is \<open>manager\<close> is among them.
\<close>

theorem C3_agent_authorized_offers:
  assumes "calculate_retention_offer (retention_rules e) (customer_tier_of data)
             (classify_reason msg) = OfferSuccess t r all_offers"
  shows "rr_offers (process e msg email data hist) = filter agent_level all_offers
         \<and> (\<forall>offer \<in> set all_offers. manager_level offer \<longrightarrow>
               offer \<notin> set (rr_offers (process e msg email data hist)))"
  using assms
  by (auto simp: rr_offers_process partition_offers_success agent_level_def manager_level_def)

theorem C3_agent_authorized_offers_witness:
  "rr_offers (process sample_env ''I can't afford it'' [] [(''tier'', ''premium'')] [])
     = [[(''type'', JStr ''pause''), (''duration_months'', JNum 3),
         (''authorization'', JStr ''agent'')],
        [(''type'', JStr ''explain_benefits'')]]
   \<and> [(''type'', JStr ''discount''), (''percentage'', JNum 50),
       (''authorization'', JStr ''manager'')]
       \<notin> set (rr_offers (process sample_env ''I can't afford it'' [] [(''tier'', ''premium'')] []))"
proof -
  have m: "manager_level [(''type'', JStr ''discount''), (''percentage'', JNum 50),
                          (''authorization'', JStr ''manager'')]"
    by (simp add: manager_level_def)
  from m C3_agent_authorized_offers [OF sample_premium_offers, where hist = "[]" and email = "[]"]
  show ?thesis by (simp add: agent_level_def)
qed

text \<open>
  C10. An offer of the catalog whose authorization is present and is neither \<open>agent\<close>
  nor \<open>manager\<close> goes to neither list of the split, so the two lists do not cover the
  catalog's offers; the offer is absent from the prompt and from the returned offers.
\<close>

theorem C10_other_authorization_dropped:
  assumes "calculate_retention_offer (retention_rules e) (customer_tier_of data)
             (classify_reason msg) = OfferSuccess t r all_offers"
    and "offer \<in> set all_offers"
    and "map_of offer ''authorization'' = Some v"
    and "v \<noteq> JStr ''agent''" and "v \<noteq> JStr ''manager''"
  shows "offer \<notin> set (fst (partition_offers (OfferSuccess t r all_offers)))
         \<and> offer \<notin> set (snd (partition_offers (OfferSuccess t r all_offers)))
         \<and> offer \<notin> set (rp_agent_offers (process_prompt e msg data hist))
         \<and> offer \<notin> set (rr_offers (process e msg email data hist))
         \<and> set (fst (partition_offers (OfferSuccess t r all_offers)))
             \<union> set (snd (partition_offers (OfferSuccess t r all_offers))) \<noteq> set all_offers"
proof -
  from assms(3-5) have na: "\<not> agent_level offer" and nm: "\<not> manager_level offer"
    by (simp_all add: agent_level_def manager_level_def)
  then have a: "offer \<notin> set (fst (partition_offers (OfferSuccess t r all_offers)))"
    and m: "offer \<notin> set (snd (partition_offers (OfferSuccess t r all_offers)))"
    by (simp_all add: partition_offers_success)
  from a assms(1) have p: "offer \<notin> set (rp_agent_offers (process_prompt e msg data hist))"
    by (simp add: rp_agent_offers_process)
  from a assms(1) have q: "offer \<notin> set (rr_offers (process e msg email data hist))"
    by (simp add: rr_offers_process)
  from a m assms(2) have
    "set (fst (partition_offers (OfferSuccess t r all_offers)))
       \<union> set (snd (partition_offers (OfferSuccess t r all_offers))) \<noteq> set all_offers"
    by blast
  with a m p q show ?thesis by blast
qed

theorem C10_other_authorization_dropped_witness:
  "[(''type'', JStr ''custom_plan''), (''authorization'', JStr ''director'')]
     \<notin> set (rr_offers (process sample_env ''I can't afford it'' [] [(''tier'', ''premium'')] []))
   \<and> [(''type'', JStr ''custom_plan''), (''authorization'', JStr ''director'')]
     \<notin> set (rp_agent_offers
              (process_prompt sample_env ''I can't afford it'' [(''tier'', ''premium'')] []))"
proof -
  have h3: "map_of [(''type'', JStr ''custom_plan''), (''authorization'', JStr ''director'')]
              ''authorization'' = Some (JStr ''director'')"
    by simp
  from C10_other_authorization_dropped
         [OF sample_premium_offers _ h3, where hist = "[]" and email = "[]"]
  show ?thesis by simp
qed

subsection \<open>The over-limit discount request\<close>


lemma space_not_digit: "is_space c \<Longrightarrow> \<not> is_digit c"
  by (auto simp: is_space_def is_digit_def Let_def)

lemma percent_class: "\<not> is_digit CHR ''%''" "\<not> is_space CHR ''%''"
  by (simp_all add: is_space_def is_digit_def)

lemma match_pct_here_split:
  assumes "match_pct_here s = Some g"
  shows "\<exists>ws rest. s = g @ ws @ CHR ''%'' # rest
           \<and> g \<noteq> [] \<and> list_all is_digit g \<and> list_all is_space ws"
proof -
  define d where "d = dropWhile is_digit s"
  define r where "r = dropWhile is_space d"
  from assms have g: "g = takeWhile is_digit s" and ne: "g \<noteq> []" and t: "take 1 r = ''%''"
    by (auto simp: match_pct_here_def Let_def d_def r_def split: if_splits)
  from t obtain rest where r: "r = CHR ''%'' # rest" by (cases r) auto
  have "s = g @ d" by (simp add: g d_def)
  moreover have "d = takeWhile is_space d @ r" by (simp add: r_def)
  ultimately have "s = g @ takeWhile is_space d @ CHR ''%'' # rest" using r by simp
  moreover have "list_all is_digit g" unfolding g list_all_iff by (auto dest: set_takeWhileD)
  moreover have "list_all is_space (takeWhile is_space d)"
    unfolding list_all_iff by (auto dest: set_takeWhileD)
  ultimately show ?thesis using ne by blast
qed

lemma match_pct_here_join:
  assumes "g \<noteq> []" and "list_all is_digit g" and "list_all is_space ws"
  shows "match_pct_here (g @ ws @ CHR ''%'' # rest) = Some g"
proof -
  have nd: "takeWhile is_digit (ws @ CHR ''%'' # rest) = []"
    using assms(3) by (cases ws) (simp_all add: percent_class space_not_digit)
  have dd: "dropWhile is_digit (ws @ CHR ''%'' # rest) = ws @ CHR ''%'' # rest"
    using assms(3) by (cases ws) (simp_all add: percent_class space_not_digit)
  from assms(2) have gd: "\<And>x. x \<in> set g \<Longrightarrow> is_digit x" by (simp add: list_all_iff)
  from assms(3) have ws: "\<And>x. x \<in> set ws \<Longrightarrow> is_space x" by (simp add: list_all_iff)
  have a: "takeWhile is_digit (g @ ws @ CHR ''%'' # rest) = g"
    using gd nd by (simp add: takeWhile_append2)
  have b: "dropWhile is_digit (g @ ws @ CHR ''%'' # rest) = ws @ CHR ''%'' # rest"
    using gd dd by (simp add: dropWhile_append2)
  have c: "dropWhile is_space (ws @ CHR ''%'' # rest) = CHR ''%'' # rest"
    using ws by (simp add: dropWhile_append2 percent_class)
  from a b c assms(1) show ?thesis by (simp add: match_pct_here_def Let_def)
qed

lemma spec_pct_match_iff:
  "spec_pct_match msg pre g = (\<exists>suf. msg = pre @ suf \<and> match_pct_here suf = Some g)"
proof
  assume "spec_pct_match msg pre g"
  then obtain ws rest where m: "msg = pre @ g @ ws @ CHR ''%'' # rest"
    and g: "g \<noteq> []" "list_all is_digit g" "list_all is_space ws"
    unfolding spec_pct_match_def by blast
  from match_pct_here_join [OF g] m show "\<exists>suf. msg = pre @ suf \<and> match_pct_here suf = Some g"
    by blast
next
  assume "\<exists>suf. msg = pre @ suf \<and> match_pct_here suf = Some g"
  then obtain suf where m: "msg = pre @ suf" and h: "match_pct_here suf = Some g" by blast
  from match_pct_here_split [OF h] m show "spec_pct_match msg pre g"
    unfolding spec_pct_match_def by auto
qed









lemma spec_pct_requests_set:
  "v \<in> set (spec_pct_requests msg) \<Longrightarrow> \<exists>pre g. spec_pct_match msg pre g \<and> v = int_of_digits g"
proof (induction msg)
  case Nil
  then show ?case by simp
next
  case (Cons c cs)
  show ?case
  proof (cases "match_pct_here (c # cs) = None \<or> v \<in> set (spec_pct_requests cs)")
    case True
    with Cons.prems have "v \<in> set (spec_pct_requests cs)" by (auto split: option.splits)
    from Cons.IH [OF this] obtain pre g where "spec_pct_match cs pre g" and v: "v = int_of_digits g"
      by blast
    then have "spec_pct_match (c # cs) (c # pre) g" unfolding spec_pct_match_iff by auto
    with v show ?thesis by blast
  next
    case False
    with Cons.prems obtain g where h: "match_pct_here (c # cs) = Some g" and v: "v = int_of_digits g"
      by (auto split: option.splits)
    from h have "spec_pct_match (c # cs) [] g" unfolding spec_pct_match_iff by simp
    with v show ?thesis by blast
  qed
qed




subsection \<open>Offer catalog\<close>

text \<open>
  C8. \<open>calculate_retention_offer\<close> answers a reason that is no key of the rules with
  the error naming the reason, and, for \<open>financial_hardship\<close>, a tier that lower-cases
  to none of \<open>premium\<close>, \<open>regular\<close>, \<open>new\<close>, or one whose block is missing, with the
  error naming the tier; neither is a success. A block that is configured, even an
  empty one, is a success carrying that block.
\<close>

theorem C8_catalog_errors:
  "(map_of rs reason = None \<longrightarrow>
      calculate_retention_offer rs tier reason
        = OfferError (''Unknown reason: '' @ reason) (map fst rs))
   \<and> (map_of rs ''financial_hardship'' \<noteq> None
        \<and> lower tier \<notin> {''premium'', ''regular'', ''new''} \<longrightarrow>
      calculate_retention_offer rs tier ''financial_hardship''
        = OfferError (''No offers for tier '' @ tier) [''premium'', ''regular'', ''new''])
   \<and> (map_of rs ''financial_hardship'' = Some blk
        \<and> map_of tier_mapping (lower tier) = Some k \<and> map_of blk k = None \<longrightarrow>
      calculate_retention_offer rs tier ''financial_hardship''
        = OfferError (''No offers for tier '' @ tier) [''premium'', ''regular'', ''new''])
   \<and> (map_of rs ''financial_hardship'' = Some blk
        \<and> map_of tier_mapping (lower tier) = Some k \<and> map_of blk k = Some offers \<longrightarrow>
      calculate_retention_offer rs tier ''financial_hardship''
        = OfferSuccess tier ''financial_hardship'' offers)"
  by (auto simp: calculate_retention_offer_def tier_mapping_def split: option.splits if_splits)

theorem C8_catalog_errors_witness:
  "calculate_retention_offer sample_rules ''premium'' ''price''
     = OfferError ''Unknown reason: price''
         [''financial_hardship'', ''product_issues'', ''service_value'', ''authorization_levels'']
   \<and> calculate_retention_offer sample_rules ''gold'' ''financial_hardship''
       = OfferError ''No offers for tier gold'' [''premium'', ''regular'', ''new'']
   \<and> calculate_retention_offer [(''financial_hardship'', [])] ''New'' ''financial_hardship''
       = OfferError ''No offers for tier New'' [''premium'', ''regular'', ''new'']
   \<and> calculate_retention_offer sample_rules ''new'' ''financial_hardship''
       = OfferSuccess ''new'' ''financial_hardship'' []"
proof -
  have h1: "map_of sample_rules ''price'' = None" by code_simp
  have h2: "map_of sample_rules ''financial_hardship'' \<noteq> None" by code_simp
  have h3: "lower ''gold'' \<notin> {''premium'', ''regular'', ''new''}" by code_simp
  have h4: "map_of [(''financial_hardship'', [])] ''financial_hardship'' = Some ([] :: block)"
    by simp
  have h5: "map_of tier_mapping (lower ''New'') = Some ''new_customers''" by code_simp
  have h6: "map_of ([] :: block) ''new_customers'' = None" by simp
  have h7: "map_of sample_rules ''financial_hardship''
              = Some [(''premium_customers'',
             [[(''type'', JStr ''pause''), (''duration_months'', JNum 3),
               (''authorization'', JStr ''agent'')],
              [(''type'', JStr ''discount''), (''percentage'', JNum 50),
               (''authorization'', JStr ''manager'')],
              [(''type'', JStr ''explain_benefits'')],
              [(''type'', JStr ''custom_plan''), (''authorization'', JStr ''director'')]]),
          (''regular_customers'',
             [[(''type'', JStr ''discount''), (''percentage'', JNum 25),
               (''authorization'', JStr ''agent'')]]),
          (''new_customers'', [])]" by code_simp
  have h8: "map_of tier_mapping (lower ''new'') = Some ''new_customers''" by code_simp
  have n: "map fst sample_rules
       = [''financial_hardship'', ''product_issues'', ''service_value'', ''authorization_levels'']"
    by code_simp
  from h1 C8_catalog_errors [of sample_rules "''price''" "''premium''"]
  have c1: "calculate_retention_offer sample_rules ''premium'' ''price''
     = OfferError ''Unknown reason: price''
         [''financial_hardship'', ''product_issues'', ''service_value'', ''authorization_levels'']"
    by (simp add: n)
  from h2 h3 C8_catalog_errors [of sample_rules _ "''gold''"]
  have c2: "calculate_retention_offer sample_rules ''gold'' ''financial_hardship''
       = OfferError ''No offers for tier gold'' [''premium'', ''regular'', ''new'']"
    by simp
  from h4 h5 h6 C8_catalog_errors [of "[(''financial_hardship'', [])]" _ "''New''" "[]" "''new_customers''"]
  have c3: "calculate_retention_offer [(''financial_hardship'', [])] ''New'' ''financial_hardship''
       = OfferError ''No offers for tier New'' [''premium'', ''regular'', ''new'']"
    by simp
  have h9: "map_of [(''premium_customers'',
             [[(''type'', JStr ''pause''), (''duration_months'', JNum 3),
               (''authorization'', JStr ''agent'')],
              [(''type'', JStr ''discount''), (''percentage'', JNum 50),
               (''authorization'', JStr ''manager'')],
              [(''type'', JStr ''explain_benefits'')],
              [(''type'', JStr ''custom_plan''), (''authorization'', JStr ''director'')]]),
          (''regular_customers'',
             [[(''type'', JStr ''discount''), (''percentage'', JNum 25),
               (''authorization'', JStr ''agent'')]]),
          (''new_customers'', [])] ''new_customers'' = Some ([] :: offer list)" by simp
  from h7 h8 h9 C8_catalog_errors [of sample_rules _ "''new''" _ "''new_customers''" "[]"]
  have c4: "calculate_retention_offer sample_rules ''new'' ''financial_hardship''
       = OfferSuccess ''new'' ''financial_hardship'' []"
    by blast
  from c1 c2 c3 c4 show ?thesis by simp
qed

subsection \<open>Greeter agent: JSON or fallback\<close>

lemma spec_nest_ge: "d \<le> spec_nest d t"
proof (induction t arbitrary: d)
  case Nil
  show ?case by simp
next
  case (Cons c cs)
  from Cons [of "Suc d"] Cons [of d] show ?case by (simp add: le_max_iff_disj)
qed

lemma spec_close_match_tail:
  "spec_close d cs = Some t \<Longrightarrow> spec_nest (Suc d) t \<le> 2 \<Longrightarrow> match_tail (d = Suc 0) cs = Some t"
proof (induction cs arbitrary: d t)
  case Nil
  then show ?case by simp
next
  case (Cons c cs)
  show ?case
  proof (cases "c = CHR ''{''")
    case True
    with Cons.prems(1) obtain t' where t: "t = c # t'" and sc: "spec_close (Suc d) cs = Some t'"
      by auto
    from Cons.prems(2) t True have n: "spec_nest (Suc (Suc d)) t' \<le> 2" by simp
    with spec_nest_ge [of "Suc (Suc d)" t'] have d: "d = 0" by simp
    from Cons.IH [OF sc n] d have "match_tail True cs = Some t'" by simp
    with True t d show ?thesis by simp
  next
    case False
    note nopen = False
    show ?thesis
    proof (cases "c = CHR ''}''")
      case True
      show ?thesis
      proof (cases d)
        case 0
        with True Cons.prems(1) show ?thesis by simp
      next
        case (Suc d')
        with True Cons.prems(1) obtain t' where t: "t = c # t'"
          and sc: "spec_close d' cs = Some t'"
          by auto
        from Cons.prems(2) t True Suc have d': "d' = 0" and n: "spec_nest (Suc d') t' \<le> 2"
          by auto
        from Cons.IH [OF sc n] d' have "match_tail False cs = Some t'" by simp
        with True t Suc d' show ?thesis by simp
      qed
    next
      case False
      with nopen Cons.prems(1) obtain t' where t: "t = c # t'" and sc: "spec_close d cs = Some t'"
        by auto
      from Cons.prems(2) t False nopen have n: "spec_nest (Suc d) t' \<le> 2" by simp
      from Cons.IH [OF sc n] False nopen t show ?thesis by simp
    qed
  qed
qed


lemma re_search_json_skip:
  "re_search_json s = re_search_json (dropWhile (\<lambda>c. c \<noteq> CHR ''{'') s)"
proof (induction s)
  case Nil
  show ?case by simp
next
  case (Cons c cs)
  show ?case
  proof (cases "c = CHR ''{''")
    case True
    then show ?thesis by simp
  next
    case False
    then have "match_json_here (c # cs) = None" by (simp add: match_json_here_def)
    with False Cons show ?thesis by simp
  qed
qed

lemma match_tail_step:
  "match_tail b (c # cs) = Some t \<Longrightarrow>
     (t = [c] \<and> c = CHR ''}'') \<or> (\<exists>b' t'. t = c # t' \<and> match_tail b' cs = Some t')"
  by (auto split: if_splits)

lemma match_tail_prefix:
  "match_tail b cs = Some t \<Longrightarrow> prefix t cs \<and> t \<noteq> [] \<and> last t = CHR ''}''"
proof (induction cs arbitrary: b t)
  case Nil
  then show ?case by simp
next
  case (Cons c cs)
  from match_tail_step [OF Cons.prems] show ?case
  proof
    assume "t = [c] \<and> c = CHR ''}''"
    then show ?thesis by simp
  next
    assume "\<exists>b' t'. t = c # t' \<and> match_tail b' cs = Some t'"
    then obtain b' t' where t: "t = c # t'" and m: "match_tail b' cs = Some t'" by blast
    from Cons.IH [OF m] t show ?thesis by simp
  qed
qed

lemma re_search_json_outermost:
  assumes "spec_outermost_object s = Some ob" and "spec_nest 0 ob \<le> 2"
  shows "re_search_json s = Some ob"
proof (cases "dropWhile (\<lambda>c. c \<noteq> CHR ''{'') s")
  case Nil
  with assms(1) show ?thesis by (simp add: spec_outermost_object_def)
next
  case (Cons c cs)
  with assms(1) obtain t where sc: "spec_close 0 cs = Some t" and ob: "ob = c # t"
    by (auto simp: spec_outermost_object_def)
  have c: "c = CHR ''{''"
    using hd_dropWhile [of "\<lambda>c. c \<noteq> CHR ''{''" s] Cons by simp
  from assms(2) ob c have "spec_nest (Suc 0) t \<le> 2" by simp
  from spec_close_match_tail [OF sc this] have "match_tail False cs = Some t" by simp
  with c have m: "re_search_json (c # cs) = Some (c # t)" by (simp add: match_json_here_def)
  have "re_search_json s = re_search_json (c # cs)"
    using re_search_json_skip [of s] by (simp only: Cons)
  with m ob show ?thesis by simp
qed

lemma re_search_json_shape:
  "re_search_json s = Some m \<Longrightarrow> sublist m s \<and> hd m = CHR ''{'' \<and> last m = CHR ''}''"
proof (induction s)
  case Nil
  then show ?case by simp
next
  case (Cons c cs)
  show ?case
  proof (cases "match_json_here (c # cs)")
    case None
    with Cons have "sublist m cs \<and> hd m = CHR ''{'' \<and> last m = CHR ''}''" by simp
    then show ?thesis by (simp add: sublist_Cons_right)
  next
    case (Some m')
    with Cons.prems have m: "m' = m" by simp
    from Some m obtain t where c: "c = CHR ''{''" and t: "match_tail False cs = Some t"
      and mt: "m = c # t"
      by (auto simp: match_json_here_def split: if_splits)
    from match_tail_prefix [OF t] mt c show ?thesis
      by (auto intro: prefix_imp_sublist)
  qed
qed

lemma greeter_process_cases:
  "greeter_process e msg email =
     (case re_search_json (classifier_reply e msg email) of
        None \<Rightarrow> greeter_fallback e msg email
      | Some m \<Rightarrow>
          (case json_loads e m of
             None \<Rightarrow> greeter_fallback e msg email
           | Some parsed \<Rightarrow>
               if map_of parsed ''intent'' = None \<or> map_of parsed ''next_agent'' = None
                 then greeter_fallback e msg email
               else greeter_from e msg email parsed))"
  by (simp add: greeter_process_def greeter_fallback_def greeter_from_def classifier_reply_def
      Let_def split: option.splits)

text \<open>
  C9, as stated, fails: in the reply below the outermost balanced-brace object parses and
  has both fields (intent \<open>billing\<close>), but it nests braces three deep, the pattern
  locates the inner object \<open>{"a": {"b": 1}}\<close>, which has neither field, and the
  greeter returns the result of the keyword cascade (intent \<open>general\<close>).
\<close>

theorem C9_counterexample:
  "spec_outermost_object (classifier_reply nested_env ''hello'' []) = Some nested_outer
   \<and> json_loads nested_env nested_outer
       = Some [(''intent'', JStr ''billing''), (''next_agent'', JStr ''billing''),
               (''meta'', JObj [(''a'', JObj [(''b'', JNum 1)])])]
   \<and> re_search_json (classifier_reply nested_env ''hello'' []) = Some ''{\"a\": {\"b\": 1}}''
   \<and> gr_intent (greeter_process nested_env ''hello'' []) = JStr ''general''
   \<and> gr_next_agent (greeter_process nested_env ''hello'' []) = JStr ''none''"
  by code_simp

text \<open>
  C9, amended. \<open>GreeterAgent.process\<close> locates the leftmost brace-delimited part of the
  reply that nests braces at most one level inside it; this is the outermost
  balanced-brace object whenever that object nests no deeper, and always a part of the
  reply from an opening to a closing brace. It returns the parsed result when that part
  parses and has both \<open>intent\<close> and \<open>next_agent\<close>, and the result of the keyword
  cascade when nothing is located, when parsing fails, or when a field is missing.
\<close>

theorem C9_json_or_fallback:
  "(\<forall>ob. spec_outermost_object (classifier_reply e msg email) = Some ob \<and> spec_nest 0 ob \<le> 2
        \<longrightarrow> re_search_json (classifier_reply e msg email) = Some ob)
   \<and> (\<forall>m. re_search_json (classifier_reply e msg email) = Some m
        \<longrightarrow> sublist m (classifier_reply e msg email) \<and> hd m = CHR ''{'' \<and> last m = CHR ''}'')
   \<and> (\<forall>m parsed. re_search_json (classifier_reply e msg email) = Some m
          \<and> json_loads e m = Some parsed
          \<and> map_of parsed ''intent'' \<noteq> None \<and> map_of parsed ''next_agent'' \<noteq> None
        \<longrightarrow> greeter_process e msg email = greeter_from e msg email parsed)
   \<and> (re_search_json (classifier_reply e msg email) = None
        \<longrightarrow> greeter_process e msg email = greeter_fallback e msg email)
   \<and> (\<forall>m. re_search_json (classifier_reply e msg email) = Some m \<and> json_loads e m = None
        \<longrightarrow> greeter_process e msg email = greeter_fallback e msg email)
   \<and> (\<forall>m parsed. re_search_json (classifier_reply e msg email) = Some m
          \<and> json_loads e m = Some parsed
          \<and> (map_of parsed ''intent'' = None \<or> map_of parsed ''next_agent'' = None)
        \<longrightarrow> greeter_process e msg email = greeter_fallback e msg email)"
proof (intro conjI allI impI)
  fix ob
  assume "spec_outermost_object (classifier_reply e msg email) = Some ob \<and> spec_nest 0 ob \<le> 2"
  then show "re_search_json (classifier_reply e msg email) = Some ob"
    by (simp add: re_search_json_outermost)
next
  fix m
  assume a: "re_search_json (classifier_reply e msg email) = Some m"
  from re_search_json_shape [OF a]
  show "sublist m (classifier_reply e msg email)" "hd m = CHR ''{''" "last m = CHR ''}''"
    by simp_all
next
  fix m parsed
  assume "re_search_json (classifier_reply e msg email) = Some m
          \<and> json_loads e m = Some parsed
          \<and> map_of parsed ''intent'' \<noteq> None \<and> map_of parsed ''next_agent'' \<noteq> None"
  then show "greeter_process e msg email = greeter_from e msg email parsed"
    by (auto simp: greeter_process_cases)
next
  assume "re_search_json (classifier_reply e msg email) = None"
  then show "greeter_process e msg email = greeter_fallback e msg email"
    by (simp add: greeter_process_cases)
next
  fix m
  assume "re_search_json (classifier_reply e msg email) = Some m \<and> json_loads e m = None"
  then show "greeter_process e msg email = greeter_fallback e msg email"
    by (simp add: greeter_process_cases)
next
  fix m parsed
  assume "re_search_json (classifier_reply e msg email) = Some m
          \<and> json_loads e m = Some parsed
          \<and> (map_of parsed ''intent'' = None \<or> map_of parsed ''next_agent'' = None)"
  then show "greeter_process e msg email = greeter_fallback e msg email"
    by (auto simp: greeter_process_cases)
qed

theorem C9_json_or_fallback_witness:
  "re_search_json (classifier_reply flat_env ''hello'' [])
     = Some ''{\"intent\": \"technical_support\", \"next_agent\": \"technical_support\"}''
   \<and> gr_intent (greeter_process flat_env ''hello'' []) = JStr ''technical_support''
   \<and> re_search_json (classifier_reply sample_env ''my bill is wrong'' []) = None
   \<and> gr_intent (greeter_process sample_env ''my bill is wrong'' []) = JStr ''billing''"
proof -
  have a: "re_search_json (classifier_reply flat_env ''hello'' [])
     = Some ''{\"intent\": \"technical_support\", \"next_agent\": \"technical_support\"}''"
    by code_simp
  have b: "json_loads flat_env
             ''{\"intent\": \"technical_support\", \"next_agent\": \"technical_support\"}''
           = Some [(''intent'', JStr ''technical_support''),
                   (''next_agent'', JStr ''technical_support'')]"
    by code_simp
  have c: "map_of [(''intent'', JStr ''technical_support''),
                   (''next_agent'', JStr ''technical_support'')] ''intent'' \<noteq> None"
    and d: "map_of [(''intent'', JStr ''technical_support''),
                   (''next_agent'', JStr ''technical_support'')] ''next_agent'' \<noteq> None"
    by simp_all
  have e: "gr_intent (greeter_from flat_env ''hello'' []
             [(''intent'', JStr ''technical_support''),
              (''next_agent'', JStr ''technical_support'')]) = JStr ''technical_support''"
    by code_simp
  have f: "re_search_json (classifier_reply sample_env ''my bill is wrong'' []) = None"
    by code_simp
  have g: "gr_intent (greeter_fallback sample_env ''my bill is wrong'' []) = JStr ''billing''"
    by code_simp
  from a b c d C9_json_or_fallback [of flat_env "''hello''" "[]"]
  have p: "greeter_process flat_env ''hello'' []
             = greeter_from flat_env ''hello'' []
                 [(''intent'', JStr ''technical_support''),
                  (''next_agent'', JStr ''technical_support'')]"
    by blast
  from f C9_json_or_fallback [of sample_env "''my bill is wrong''" "[]"]
  have q: "greeter_process sample_env ''my bill is wrong'' []
             = greeter_fallback sample_env ''my bill is wrong'' []"
    by blast
  from a e f g p q show ?thesis by simp
qed

subsection \<open>Workflow\<close>

text \<open>
  C7. When the previous turn left intent \<open>general\<close> and next agent \<open>none\<close>, the loop of
  \<open>main\<close> drops the session state: the turn is \<open>run\<close> without a previous state, that
  is the graph invoked on the initial state of the message, in which nothing of the
  previous state occurs.
\<close>

theorem C7_session_reset:
  assumes "intent st = JStr ''general''" and "next_agent st = JStr ''none''"
  shows "main_turn e log (Some st) msg email = run e log msg email None
         \<and> run e log msg email None = workflow_invoke e log (initial_state msg email)"
  using assms by (simp add: main_turn_def run_def)

theorem C7_session_reset_witness:
  "intent general_turn = JStr ''general'' \<and> next_agent general_turn = JStr ''none''
   \<and> completed general_turn
   \<and> main_turn sample_env [] (Some general_turn) ''my phone won't charge anymore'' []
       = run sample_env [] ''my phone won't charge anymore'' [] None"
proof -
  have a: "intent general_turn = JStr ''general''" by code_simp
  have b: "next_agent general_turn = JStr ''none''" by code_simp
  have c: "completed general_turn" by code_simp
  from a b c C7_session_reset [OF a b, of sample_env "[]" "''my phone won't charge anymore''" "[]"]
  show ?thesis by blast
qed

lemma last_agent_type_continue:
  "last_agent_type (continue_state prev msg email) = last_agent_type prev"
  by (simp add: last_agent_type_def continue_state_def)






lemma agent_responses_continue:
  "agent_responses (continue_state prev msg email) = agent_responses prev"
  by (simp add: continue_state_def)

lemma run_billing:
  "last_agent_type prev = Some ''billing'' \<Longrightarrow>
   run e log msg email (Some prev)
     = ((continue_state prev msg email)
          \<lparr> agent_responses := agent_responses prev @
               [simple_response ''billing''
                  (if any_in billing_affirmative (lower msg) then billing_confirmation
                   else billing_elaboration
                          (rag e ''billing charges, pricing, fees, account charges'' 2))],
            final_action := ''billing_followup'',
            completed := True \<rparr>, log)"
  by (simp add: run_def Let_def last_agent_type_continue agent_responses_continue)

lemma run_technical:
  "last_agent_type prev = Some ''technical_support'' \<Longrightarrow>
   run e log msg email (Some prev)
     = ((continue_state prev msg email)
          \<lparr> agent_responses := agent_responses prev @
               [simple_response ''technical_support''
                  (if any_in technical_affirmative (lower msg) then technical_confirmation
                   else technical_elaboration (rag e msg 2))],
            final_action := ''technical_support_followup'',
            completed := True \<rparr>, log)"
  by (simp add: run_def Let_def last_agent_type_continue agent_responses_continue)

text \<open>
  C6, as stated, fails: after the billing reply below, which has no affirmative word, the
  state is marked completed, and its final action is that of an affirmative reply.
\<close>

theorem C6_counterexample:
  "last_agent_type billing_turn = Some ''billing''
   \<and> \<not> any_in billing_affirmative (lower ''why is that?'')
   \<and> completed (fst (run sample_env [] ''why is that?'' [] (Some billing_turn)))
   \<and> final_action (fst (run sample_env [] ''why is that?'' [] (Some billing_turn)))
       = final_action (fst (run sample_env [] ''yes please'' [] (Some billing_turn)))"
  by code_simp

text \<open>
  C6, amended. On a follow-up turn whose last response came from the billing or the
  technical support role, an affirmative word in the lower-cased message makes the
  workflow emit the transfer or callback confirmation, and any other message makes it
  fetch fresh passages and emit an elaboration; in both cases the turn ends completed
  with final action \<open>billing_followup\<close> or \<open>technical_support_followup\<close>, and the last
  response stays with the same role, so the next message is handled by the same role.
\<close>

theorem C6_followup_always_terminal:
  "(last_agent_type prev = Some ''billing'' \<longrightarrow>
      run e log msg email (Some prev)
        = ((continue_state prev msg email)
             \<lparr> agent_responses := agent_responses prev @
                  [simple_response ''billing''
                     (if any_in billing_affirmative (lower msg) then billing_confirmation
                      else billing_elaboration
                             (rag e ''billing charges, pricing, fees, account charges'' 2))],
               final_action := ''billing_followup'',
               completed := True \<rparr>, log)
      \<and> completed (fst (run e log msg email (Some prev)))
      \<and> last_agent_type (fst (run e log msg email (Some prev))) = Some ''billing'')
   \<and> (last_agent_type prev = Some ''technical_support'' \<longrightarrow>
      run e log msg email (Some prev)
        = ((continue_state prev msg email)
             \<lparr> agent_responses := agent_responses prev @
                  [simple_response ''technical_support''
                     (if any_in technical_affirmative (lower msg) then technical_confirmation
                      else technical_elaboration (rag e msg 2))],
               final_action := ''technical_support_followup'',
               completed := True \<rparr>, log)
      \<and> completed (fst (run e log msg email (Some prev)))
      \<and> last_agent_type (fst (run e log msg email (Some prev))) = Some ''technical_support'')"
proof (intro conjI impI)
  assume b: "last_agent_type prev = Some ''billing''"
  note r = run_billing [OF b, of e log msg email]
  show "run e log msg email (Some prev)
        = ((continue_state prev msg email)
             \<lparr> agent_responses := agent_responses prev @
                  [simple_response ''billing''
                     (if any_in billing_affirmative (lower msg) then billing_confirmation
                      else billing_elaboration
                             (rag e ''billing charges, pricing, fees, account charges'' 2))],
               final_action := ''billing_followup'',
               completed := True \<rparr>, log)"
    by (rule r)
  show "completed (fst (run e log msg email (Some prev)))"
    "last_agent_type (fst (run e log msg email (Some prev))) = Some ''billing''"
    by (simp_all add: r last_agent_type_def simple_response_def)
next
  assume t: "last_agent_type prev = Some ''technical_support''"
  note r = run_technical [OF t, of e log msg email]
  show "run e log msg email (Some prev)
        = ((continue_state prev msg email)
             \<lparr> agent_responses := agent_responses prev @
                  [simple_response ''technical_support''
                     (if any_in technical_affirmative (lower msg) then technical_confirmation
                      else technical_elaboration (rag e msg 2))],
               final_action := ''technical_support_followup'',
               completed := True \<rparr>, log)"
    by (rule r)
  show "completed (fst (run e log msg email (Some prev)))"
    "last_agent_type (fst (run e log msg email (Some prev))) = Some ''technical_support''"
    by (simp_all add: r last_agent_type_def simple_response_def)
qed

theorem C6_followup_always_terminal_witness:
  "last_agent_type billing_turn = Some ''billing''
   \<and> completed (fst (run sample_env [] ''yes please'' [] (Some billing_turn)))
   \<and> last_agent_type (fst (run sample_env [] ''yes please'' [] (Some billing_turn)))
       = Some ''billing''
   \<and> last_agent_type technical_turn = Some ''technical_support''
   \<and> completed (fst (run sample_env [] ''it is still dead'' [] (Some technical_turn)))
   \<and> last_agent_type (fst (run sample_env [] ''it is still dead'' [] (Some technical_turn)))
       = Some ''technical_support''"
proof -
  have b: "last_agent_type billing_turn = Some ''billing''" by code_simp
  have t: "last_agent_type technical_turn = Some ''technical_support''" by code_simp
  from b t C6_followup_always_terminal [of billing_turn sample_env "[]" "''yes please''" "[]"]
    C6_followup_always_terminal [of technical_turn sample_env "[]" "''it is still dead''" "[]"]
  show ?thesis by blast
qed

end
